theory Spec2Isabelle
  imports Complex_Main "HOL-Library.Word"
begin

section \<open>The camera tutorial: real\_camera.cpp\<close>

subsection \<open>Data\<close>

text \<open>
  \<open>std::size_t\<close> is a 64-bit unsigned word and \<open>int\<close> a 32-bit word. The \<open>float\<close>
  fields of a view are read as real numbers; every division the code performs is written
  with \<open>fdiv\<close>, which has no value when the divisor is zero.
\<close>

type_synonym size_t = "64 word"
type_synonym c_int = "32 word"
type_synonym vec3 = "real \<times> real \<times> real"

text \<open>
  The \<open>CameraPara\<close> struct: the fields that \<open>KRT_to_camera\<close> and \<open>key_press_event\<close>
  read. \<open>w\<close> and \<open>h\<close> are the integer image size.
\<close>

record CameraPara =
  w :: int
  h :: int
  fx :: real
  fy :: real
  cx :: real
  cy :: real
  rx :: real
  ry :: real
  rz :: real
  tx :: real
  ty :: real
  tz :: real

text \<open>
  The camera object belongs to the rendering library. It is modelled by the sequence of
  setter calls it has received, each with its arguments: \<open>quat(axis, angle)\<close> and
  \<open>-q.rotate(pos)\<close> are kept as the terms the code builds.
\<close>

datatype quat = Quat_axis_angle "vec3 option" real

datatype position = Neg_rotate quat vec3

datatype camera_call =
    Set_from_calibration real real real real real vec3 vec3
  | SetOrientation quat
  | SetPosition position
  | SetFieldOfView "real option"

type_synonym Camera = "camera_call list"

text \<open>
  The viewer's state: the members of \<open>RealCamera\<close> the two functions touch.
  The members are written without the trailing underscore of the source.
  \<open>current_view\<close> is combined with \<open>views.size()\<close> and handed to the
  \<open>std::size_t\<close> parameter of \<open>KRT_to_camera\<close>; it is given that type.
  \<open>texture\<close> holds the number of the image last loaded, \<open>cameras_visible\<close> the
  visibility of the "cameras" drawable when there is one, and \<open>window\<close> the arguments of
  the last \<open>resize\<close>.
\<close>

record RealCamera =
  views :: "CameraPara list"
  current_view :: size_t
  texture :: "size_t option"
  camera :: Camera
  cameras_visible :: "bool option"
  window :: "real \<times> real"

subsection \<open>Helpers of the vector library and the key codes\<close>

definition fdiv :: "real \<Rightarrow> real \<Rightarrow> real option" where
  "fdiv a b = (if b = 0 then None else Some (a / b))"

text \<open>\<open>vec3::length()\<close>: the Euclidean norm.\<close>

definition vec_length :: "vec3 \<Rightarrow> real" where
  "vec_length v = (case v of (x, y, z) \<Rightarrow> sqrt (x * x + y * y + z * z))"

text \<open>\<open>operator/(vec3, float)\<close>: componentwise, one divisor.\<close>

definition vec_div :: "vec3 \<Rightarrow> real \<Rightarrow> vec3 option" where
  "vec_div v a = (case v of (x, y, z) \<Rightarrow>
     (case (fdiv x a, fdiv y a, fdiv z a) of
        (Some x', Some y', Some z') \<Rightarrow> Some (x', y', z')
      | _ \<Rightarrow> None))"

text \<open>\<open>views.size()\<close>.\<close>

definition vsize :: "'a list \<Rightarrow> size_t" where
  "vsize xs = word_of_nat (length xs)"

definition GLFW_KEY_SPACE :: c_int where "GLFW_KEY_SPACE = 32"
definition GLFW_KEY_1 :: c_int where "GLFW_KEY_1 = 49"
definition GLFW_KEY_2 :: c_int where "GLFW_KEY_2 = 50"
definition GLFW_KEY_H :: c_int where "GLFW_KEY_H = 72"

subsection \<open>load\_image, KRT\_to\_camera, key\_press\_event\<close>

text \<open>
  \<open>load_image\<close> replaces the texture when the image file of the current view exists;
  \<open>is_file\<close> stands for the file system.
\<close>

definition load_image :: "(size_t \<Rightarrow> bool) \<Rightarrow> RealCamera \<Rightarrow> RealCamera" where
  "load_image is_file s =
     (if is_file (current_view s) then s\<lparr>texture := Some (current_view s)\<rparr> else s)"

text \<open>
  \<open>KRT_to_camera(view_index, method, c)\<close>: the returned triple is the C++ return value,
  the camera \<open>c\<close> after the call and the viewer after the call.
\<close>

definition KRT_to_camera ::
  "(size_t \<Rightarrow> bool) \<Rightarrow> RealCamera \<Rightarrow> size_t \<Rightarrow> c_int \<Rightarrow> Camera \<Rightarrow> bool \<times> Camera \<times> RealCamera" where
  "KRT_to_camera is_file s view_index method c =
     (if view_index < 0 \<or> view_index \<ge> vsize (views s) then (False, c, s)
      else
        let cam = views s ! unat view_index;
            fx' = fx cam; fy' = fy cam; cx' = cx cam; cy' = cy cam;
            c' =
              (if method = 1 then
                 c @ [Set_from_calibration fx' fy' 0 cx' cy'
                        (rx cam, ry cam, rz cam) (tx cam, ty cam, tz cam)]
               else if method = 2 then
                 let rot_vec = (- rx cam, - ry cam, - rz cam);
                     angle = vec_length rot_vec;
                     q = Quat_axis_angle (vec_div rot_vec angle) angle;
                     pos = (tx cam, ty cam, tz cam);
                     proj_5th = fdiv (2 * fy') (real_of_int (h cam))
                 in c @ [SetOrientation q,
                         SetPosition (Neg_rotate q pos),
                         SetFieldOfView
                           (map_option (\<lambda>a. 2 * arctan a) (Option.bind proj_5th (fdiv 1)))]
               else c)
        in (True, c', load_image is_file s))"

text \<open>
  \<open>key_press_event(key, modifiers)\<close>. Keys the class does not handle go to
  \<open>Viewer::key_press_event\<close>, a function of the base class that sees the camera but none
  of the members of \<open>RealCamera\<close>; it is the parameter \<open>viewer_kpe\<close>.
\<close>

definition show_view :: "RealCamera \<Rightarrow> RealCamera" where
  "show_view s =
     (let c = views s ! unat (current_view s)
      in s\<lparr>window := (real_of_int (w c) * 0.3, real_of_int (h c) * 0.3)\<rparr>)"

definition key_press_event ::
  "(size_t \<Rightarrow> bool) \<Rightarrow> (c_int \<Rightarrow> c_int \<Rightarrow> Camera \<Rightarrow> bool \<times> Camera) \<Rightarrow>
   RealCamera \<Rightarrow> c_int \<Rightarrow> c_int \<Rightarrow> bool \<times> RealCamera" where
  "key_press_event is_file viewer_kpe s key modifiers =
     (if key = GLFW_KEY_SPACE then
        (if views s \<noteq> [] then
           let s1 = s\<lparr>current_view := (current_view s + 1) mod vsize (views s)\<rparr>
           in (case KRT_to_camera is_file s1 (current_view s1) 2 (camera s1) of
                 (ok, c', s2) \<Rightarrow>
                   let s3 = s2\<lparr>camera := c'\<rparr>
                   in (True, if ok then show_view s3 else s3))
         else (True, s))
      else if key = GLFW_KEY_1 then
        (if views s \<noteq> [] then
           (case KRT_to_camera is_file s (current_view s) 1 (camera s) of
              (ok, c', s2) \<Rightarrow>
                let s3 = s2\<lparr>camera := c'\<rparr>
                in (True, if ok then show_view s3 else s3))
         else (True, s))
      else if key = GLFW_KEY_2 then
        (if views s \<noteq> [] then
           (case KRT_to_camera is_file s (current_view s) 2 (camera s) of
              (ok, c', s2) \<Rightarrow>
                let s3 = s2\<lparr>camera := c'\<rparr>
                in (True, if ok then show_view s3 else s3))
         else (True, s))
      else if key = GLFW_KEY_H then
        (True, s\<lparr>cameras_visible := map_option Not (cameras_visible s)\<rparr>)
      else
        (case viewer_kpe key modifiers (camera s) of
           (r, c') \<Rightarrow> (r, s\<lparr>camera := c'\<rparr>)))"

text \<open>The index invariant of the viewer: \<open>current_view\<close> addresses an element of \<open>views\<close>.\<close>

definition view_in_range :: "RealCamera \<Rightarrow> bool" where
  "view_in_range s = (unat (current_view s) < length (views s))"

text \<open>Two views for the examples: the second has the zero rotation vector.\<close>

definition view0 :: CameraPara where
  "view0 = \<lparr>w = 640, h = 480, fx = 500, fy = 500, cx = 320, cy = 240,
            rx = 0, ry = 0, rz = 2, tx = 1, ty = 2, tz = 3\<rparr>"

definition viewer0 :: RealCamera where
  "viewer0 = \<lparr>views = [view0, view0\<lparr>rz := 0\<rparr>], current_view = 0, texture = None, camera = [],
     cameras_visible = None, window = (0, 0)\<rparr>"

section \<open>Convex partition of polygons: polygon\_partition.h\<close>

text \<open>
  The header declares \<open>apply_OPT\<close>, \<open>apply_HM\<close> and \<open>apply\<close> on points and indexed
  polygons (\<open>std::vector<std::size_t>\<close>). Their bodies are in polygon\_partition.cpp, which
  is not among the sources: the operations below follow the specification, with coordinates
  read as real numbers and the tolerance of the orientation test as the parameter \<open>eps\<close>.
\<close>

type_synonym vec2 = "real \<times> real"
type_synonym Polygon = "nat list"

text \<open>
  Modelled from the spec: the result of the orientation test (section 4.1): left turn,
  right turn or collinear.
\<close>

datatype turn = Left_turn | Right_turn | Collinear

text \<open>
  Modelled from the spec: the cross product of \<open>b - a\<close> and \<open>c - b\<close>
  (section 4.1).
\<close>

definition cross3 :: "vec2 \<Rightarrow> vec2 \<Rightarrow> vec2 \<Rightarrow> real" where
  "cross3 a b c = (fst b - fst a) * (snd c - snd b) - (snd b - snd a) * (fst c - fst b)"

text \<open>
  Modelled from the spec: \<open>orientation(a,b,c)\<close> (section 4.1), the sign of
  the cross product, where a cross product of absolute value at most \<open>eps\<close>
  counts as collinear.
\<close>

definition orientation :: "real \<Rightarrow> vec2 \<Rightarrow> vec2 \<Rightarrow> vec2 \<Rightarrow> turn" where
  "orientation eps a b c =
     (let d = cross3 a b c
      in if \<bar>d\<bar> \<le> eps then Collinear else if 0 < d then Left_turn else Right_turn)"

text \<open>
  Modelled from the spec: the position before \<open>i\<close> on a closed loop of
  \<open>n\<close> vertices.
\<close>

definition prev_pos :: "nat \<Rightarrow> nat \<Rightarrow> nat" where
  "prev_pos n i = (i + n - 1) mod n"

text \<open>
  Modelled from the spec: the position after \<open>i\<close> on a closed loop of
  \<open>n\<close> vertices.
\<close>

definition next_pos :: "nat \<Rightarrow> nat \<Rightarrow> nat" where
  "next_pos n i = (i + 1) mod n"

text \<open>
  Modelled from the spec: \<open>is_reflex(poly, i)\<close> (section 4.1): the turn at
  vertex \<open>i\<close> of a counter-clockwise polygon is a right turn.
\<close>

definition is_reflex :: "real \<Rightarrow> vec2 list \<Rightarrow> Polygon \<Rightarrow> nat \<Rightarrow> bool" where
  "is_reflex eps pts poly i =
     (let n = length poly
      in orientation eps (pts ! (poly ! prev_pos n i)) (pts ! (poly ! i))
           (pts ! (poly ! next_pos n i)) = Right_turn)"

text \<open>
  Modelled from the spec: two strict turns of opposite direction, as the proper
  intersection test needs them.
\<close>

definition opposite :: "turn \<Rightarrow> turn \<Rightarrow> bool" where
  "opposite s t = ((s = Left_turn \<and> t = Right_turn) \<or> (s = Right_turn \<and> t = Left_turn))"

text \<open>
  Modelled from the spec: \<open>segments_intersect(p1,p2,p3,p4)\<close> (section 4.1),
  the proper intersection test: each segment has the end points of the other strictly on
  opposite sides, so shared end points do not count.
\<close>

definition segments_intersect :: "real \<Rightarrow> vec2 \<Rightarrow> vec2 \<Rightarrow> vec2 \<Rightarrow> vec2 \<Rightarrow> bool" where
  "segments_intersect eps p1 p2 p3 p4 =
     (opposite (orientation eps p1 p2 p3) (orientation eps p1 p2 p4) \<and>
      opposite (orientation eps p3 p4 p1) (orientation eps p3 p4 p2))"

text \<open>
  Modelled from the spec: \<open>point_in_triangle\<close> (section 4.1) for a counter-
  clockwise triangle, its boundary included.
\<close>

definition point_in_triangle :: "real \<Rightarrow> vec2 \<Rightarrow> vec2 \<Rightarrow> vec2 \<Rightarrow> vec2 \<Rightarrow> bool" where
  "point_in_triangle eps p a b c =
     (orientation eps a b p \<noteq> Right_turn \<and> orientation eps b c p \<noteq> Right_turn \<and>
      orientation eps c a p \<noteq> Right_turn)"

text \<open>
  Modelled from the spec: the edges of a closed loop, each vertex with its successor.
\<close>

definition edges_of :: "'a list \<Rightarrow> ('a \<times> 'a) list" where
  "edges_of r = zip r (rotate1 r)"

text \<open>
  Modelled from the spec: one step of the ray-crossing test of section 4.3: the
  horizontal ray from \<open>p\<close> to the right crosses the edge \<open>(a,
  b)\<close>.
\<close>

definition ray_crosses :: "vec2 \<Rightarrow> vec2 \<times> vec2 \<Rightarrow> bool" where
  "ray_crosses p e =
     (case e of (a, b) \<Rightarrow>
        (snd p < snd a) \<noteq> (snd p < snd b) \<and>
        fst p < fst a + (snd p - snd a) * (fst b - fst a) / (snd b - snd a))"

text \<open>
  Modelled from the spec: the point-in-polygon test by ray crossing (section 4.3): an
  odd number of crossed boundary edges.
\<close>

definition point_in_polygon :: "vec2 \<Rightarrow> vec2 list \<Rightarrow> bool" where
  "point_in_polygon p loop = odd (length (filter (ray_crosses p) (edges_of loop)))"

text \<open>
  Modelled from the spec: one term of the signed area of a loop (section 8, area
  preservation).
\<close>

definition shoelace :: "vec2 \<Rightarrow> vec2 \<Rightarrow> real" where
  "shoelace a b = fst a * snd b - fst b * snd a"

text \<open>
  Modelled from the spec: the sum of the area terms along a path of vertex indices.
\<close>

fun path_sum :: "vec2 list \<Rightarrow> Polygon \<Rightarrow> real" where
  "path_sum pts (a # b # r) = shoelace (pts ! a) (pts ! b) + path_sum pts (b # r)"
| "path_sum pts r = 0"

text \<open>
  Modelled from the spec: twice the signed area of a closed loop: positive for a
  counter-clockwise loop.
\<close>

definition area2 :: "vec2 list \<Rightarrow> Polygon \<Rightarrow> real" where
  "area2 pts poly = (case poly of [] \<Rightarrow> 0 | a # r \<Rightarrow> path_sum pts (poly @ [a]))"



text \<open>
  Modelled from the spec: a self-intersecting boundary (sections 3 and 7): two edges
  that are not neighbours intersect properly.
\<close>

definition self_intersecting :: "real \<Rightarrow> vec2 list \<Rightarrow> Polygon \<Rightarrow> bool" where
  "self_intersecting eps pts poly =
     (let n = length poly
      in \<exists>i \<in> set [0..<n]. \<exists>j \<in> set [0..<n]. i < j \<and> next_pos n i \<noteq> j \<and> next_pos n j \<noteq> i \<and>
           segments_intersect eps (pts ! (poly ! i)) (pts ! (poly ! next_pos n i))
             (pts ! (poly ! j)) (pts ! (poly ! next_pos n j)))"

text \<open>
  Modelled from the spec: the conditions of section 3 on a polygon: at least three
  vertices, indices into the point table, no index twice, consecutive points distinct, a
  simple loop.
\<close>

definition valid_loop :: "real \<Rightarrow> vec2 list \<Rightarrow> Polygon \<Rightarrow> bool" where
  "valid_loop eps pts poly =
     (3 \<le> length poly \<and> (\<forall>v \<in> set poly. v < length pts) \<and> distinct poly \<and>
      (\<forall>e \<in> set (edges_of poly). pts ! fst e \<noteq> pts ! snd e) \<and>
      \<not> self_intersecting eps pts poly)"

text \<open>
  Modelled from the spec: the validation of section 4.7 for an outer polygon: a valid
  loop in counter-clockwise order.
\<close>

definition valid_polygon :: "real \<Rightarrow> vec2 list \<Rightarrow> Polygon \<Rightarrow> bool" where
  "valid_polygon eps pts poly = (valid_loop eps pts poly \<and> 0 < area2 pts poly)"

text \<open>
  Modelled from the spec: the validation of section 4.7 for a hole: a valid loop in
  clockwise order.
\<close>

definition valid_hole :: "real \<Rightarrow> vec2 list \<Rightarrow> Polygon \<Rightarrow> bool" where
  "valid_hole eps pts poly = (valid_loop eps pts poly \<and> area2 pts poly < 0)"

text \<open>
  Modelled from the spec: an ear (section 4.2): the triangle of the vertex and its two
  neighbours turns left, as the polygon does, and contains no other vertex of the
  polygon.
\<close>

definition is_ear :: "real \<Rightarrow> vec2 list \<Rightarrow> Polygon \<Rightarrow> nat \<Rightarrow> bool" where
  "is_ear eps pts poly i =
     (let n = length poly;
          a = pts ! (poly ! prev_pos n i); b = pts ! (poly ! i); c = pts ! (poly ! next_pos n i)
      in orientation eps a b c = Left_turn \<and>
         (\<forall>v \<in> set poly. pts ! v = a \<or> pts ! v = b \<or> pts ! v = c \<or>
            \<not> point_in_triangle eps (pts ! v) a b c))"

text \<open>
  Modelled from the spec: \<open>triangulate(poly)\<close> (section 4.2), ear clipping:
  the first ear in index order is cut off until three vertices remain; no ear is a
  failure. The implementation, polygon\_partition.cpp, is not among the sources.
\<close>

function triangulate :: "real \<Rightarrow> vec2 list \<Rightarrow> Polygon \<Rightarrow> Polygon list option" where
  "triangulate eps pts poly =
     (if length poly < 3 then None
      else if length poly = 3 then Some [poly]
      else
        (case find (is_ear eps pts poly) [0..<length poly] of
           None \<Rightarrow> None
         | Some i \<Rightarrow>
             map_option
               ((#) [poly ! prev_pos (length poly) i, poly ! i, poly ! next_pos (length poly) i])
               (triangulate eps pts (take i poly @ drop (Suc i) poly))))"
  by pat_completeness auto
termination
proof (relation "measure (\<lambda>(eps, pts, poly). length poly)")
  show "wf (measure (\<lambda>(eps, pts, poly). length poly))" by simp
next
  fix eps :: real and pts :: "vec2 list" and poly :: Polygon and i
  assume "\<not> length poly < 3" and f: "find (is_ear eps pts poly) [0..<length poly] = Some i"
  from f have "i < length poly" by (auto simp: find_Some_iff)
  then show "((eps, pts, take i poly @ drop (Suc i) poly), (eps, pts, poly))
      \<in> measure (\<lambda>(eps, pts, poly). length poly)"
    by simp
qed

declare triangulate.simps [simp del]

text \<open>
  Modelled from the spec: the position in a region of the directed edge from
  \<open>a\<close> to \<open>b\<close> (section 4.4, step 2).
\<close>

definition find_edge :: "Polygon \<Rightarrow> nat \<Rightarrow> nat \<Rightarrow> nat option" where
  "find_edge r a b =
     find (\<lambda>k. r ! k = a \<and> r ! next_pos (length r) k = b) [0..<length r]"

text \<open>
  Modelled from the spec: a region has the directed edge from \<open>a\<close> to
  \<open>b\<close>.
\<close>

definition has_edge :: "nat \<Rightarrow> nat \<Rightarrow> Polygon \<Rightarrow> bool" where
  "has_edge a b r = (find_edge r a b \<noteq> None)"

text \<open>
  Modelled from the spec: the diagonals two regions share (section 4.4, step 2), in
  increasing order of the index pair (step 3).
\<close>

definition shared_diagonals :: "nat \<Rightarrow> Polygon list \<Rightarrow> (nat \<times> nat) list" where
  "shared_diagonals n regions =
     concat (map (\<lambda>a. map (Pair a)
       (filter (\<lambda>b. (\<exists>r \<in> set regions. has_edge a b r) \<and> (\<exists>r \<in> set regions. has_edge b a r))
          [Suc a..<n])) [0..<n])"

text \<open>
  Modelled from the spec: the union of two regions across their shared diagonal (section
  4.4, step 4): the first loop from \<open>b\<close> round to \<open>a\<close>, then the
  second from \<open>a\<close> on, without the two end points of the diagonal a second
  time.
\<close>

definition merge_loops :: "Polygon \<Rightarrow> nat \<Rightarrow> Polygon \<Rightarrow> nat \<Rightarrow> Polygon" where
  "merge_loops r1 k1 r2 k2 = rotate (Suc k1) r1 @ butlast (tl (rotate (Suc k2) r2))"

text \<open>
  Modelled from the spec: the local test of section 4.4, step 3: the angle of the loop
  at vertex \<open>v\<close> is not reflex.
\<close>

definition convex_at :: "real \<Rightarrow> vec2 list \<Rightarrow> Polygon \<Rightarrow> nat \<Rightarrow> bool" where
  "convex_at eps pts r v =
     (\<forall>k \<in> set [0..<length r]. r ! k = v \<longrightarrow> \<not> is_reflex eps pts r k)"

text \<open>
  Modelled from the spec: one step of the Hertel-Mehlhorn scan (section 4.4, steps 3 and
  4): the two regions a diagonal separates are merged when the merged loop is convex at
  both end points, and left as they are otherwise.
\<close>

definition merge_across :: "real \<Rightarrow> vec2 list \<Rightarrow> nat \<times> nat \<Rightarrow> Polygon list \<Rightarrow> Polygon list" where
  "merge_across eps pts d regions =
     (case d of (a, b) \<Rightarrow>
        (case find (has_edge a b) regions of
           None \<Rightarrow> regions
         | Some r1 \<Rightarrow>
             (case find (has_edge b a) (remove1 r1 regions) of
                None \<Rightarrow> regions
              | Some r2 \<Rightarrow>
                  let m = merge_loops r1 (the (find_edge r1 a b)) r2 (the (find_edge r2 b a))
                  in if convex_at eps pts m a \<and> convex_at eps pts m b
                     then m # remove1 r2 (remove1 r1 regions)
                     else regions)))"

text \<open>
  Modelled from the spec: \<open>partition_HM(poly)\<close> (section 4.4): triangulate,
  then scan the shared diagonals and merge. The polygon is given by its points, as
  \<open>apply_HM\<close> of the header takes it; the parts are lists of positions in
  it. The implementation is not among the sources.
\<close>

definition partition_HM :: "real \<Rightarrow> vec2 list \<Rightarrow> Polygon list option" where
  "partition_HM eps pts =
     (case triangulate eps pts [0..<length pts] of
        None \<Rightarrow> None
      | Some triangles \<Rightarrow>
          Some (fold (merge_across eps pts) (shared_diagonals (length pts) triangles) triangles))"

text \<open>
  Modelled from the spec: a convex polygon (section 3): no vertex is reflex, collinear
  vertices are allowed.
\<close>

definition is_convex_loop :: "real \<Rightarrow> vec2 list \<Rightarrow> Polygon \<Rightarrow> bool" where
  "is_convex_loop eps pts poly = (\<forall>i \<in> set [0..<length poly]. \<not> is_reflex eps pts poly i)"

text \<open>
  Modelled from the spec: the midpoint of a segment (section 4.3, test b).
\<close>

definition midpoint :: "vec2 \<Rightarrow> vec2 \<Rightarrow> vec2" where
  "midpoint a b = ((fst a + fst b) / 2, (snd a + snd b) / 2)"

text \<open>
  Modelled from the spec: the feasibility test of section 4.3: the segment properly
  intersects no boundary edge and its midpoint lies inside the polygon.
\<close>

definition valid_diagonal :: "real \<Rightarrow> vec2 list \<Rightarrow> Polygon \<Rightarrow> nat \<Rightarrow> nat \<Rightarrow> bool" where
  "valid_diagonal eps pts poly i j =
     ((\<forall>e \<in> set (edges_of poly).
         \<not> segments_intersect eps (pts ! (poly ! i)) (pts ! (poly ! j)) (pts ! fst e) (pts ! snd e)) \<and>
      point_in_polygon (midpoint (pts ! (poly ! i)) (pts ! (poly ! j))) (map ((!) pts) poly))"

text \<open>
  Modelled from the spec: \<open>diagonals(poly)\<close> (section 4.3): the feasible
  pairs of positions \<open>i < j\<close> that are not neighbours on the loop.
\<close>

definition diagonals :: "real \<Rightarrow> vec2 list \<Rightarrow> Polygon \<Rightarrow> (nat \<times> nat) list" where
  "diagonals eps pts poly =
     (let n = length poly
      in concat (map (\<lambda>i. map (Pair i)
           (filter (\<lambda>j. \<not> (i = 0 \<and> Suc j = n) \<and> valid_diagonal eps pts poly i j) [i + 2..<n]))
           [0..<n]))"

text \<open>
  Modelled from the spec: the sub-polygon bounded by the chain from \<open>i\<close> to
  \<open>j\<close> and the diagonal \<open>(i, j)\<close> (section 4.5).
\<close>

definition chain :: "Polygon \<Rightarrow> nat \<Rightarrow> nat \<Rightarrow> Polygon" where
  "chain poly i j = take (Suc j - i) (drop i poly)"

text \<open>
  Modelled from the spec: the other sub-polygon of the diagonal \<open>(i, j)\<close>:
  the chain from \<open>j\<close> round to \<open>i\<close> (section 4.5).
\<close>

definition co_chain :: "Polygon \<Rightarrow> nat \<Rightarrow> nat \<Rightarrow> Polygon" where
  "co_chain poly i j = drop j poly @ take (Suc i) poly"

text \<open>
  Modelled from the spec: the minimum of section 4.5: among the candidate decompositions
  that exist, one with the fewest pieces.
\<close>

fun fewest :: "Polygon list option list \<Rightarrow> Polygon list option" where
  "fewest [] = None"
| "fewest (None # cs) = fewest cs"
| "fewest (Some c # cs) =
     (case fewest cs of
        None \<Rightarrow> Some c
      | Some b \<Rightarrow> if length b < length c then Some b else Some c)"

lemma diagonals_bounds:
  assumes "(i, j) \<in> set (diagonals eps pts poly)"
  shows "i + 2 \<le> j" and "j < length poly" and "\<not> (i = 0 \<and> Suc j = length poly)"
  using assms by (auto simp: diagonals_def Let_def)

text \<open>
  Modelled from the spec: \<open>partition_OPT(poly)\<close> (section 4.5) by its
  recurrence: a convex polygon is one piece; otherwise every feasible diagonal splits
  the polygon into two smaller problems, and a split with the fewest pieces in total is
  taken. The memo table and the bookkeeping of the dynamic program, and the
  implementation itself, are not among the sources.
\<close>

function partition_OPT :: "real \<Rightarrow> vec2 list \<Rightarrow> Polygon \<Rightarrow> Polygon list option" where
  "partition_OPT eps pts poly =
     (if length poly < 3 then None
      else if is_convex_loop eps pts poly then Some [poly]
      else fewest (map (\<lambda>d.
             (case partition_OPT eps pts (chain poly (fst d) (snd d)) of
                None \<Rightarrow> None
              | Some l \<Rightarrow>
                  (case partition_OPT eps pts (co_chain poly (fst d) (snd d)) of
                     None \<Rightarrow> None
                   | Some r \<Rightarrow> Some (l @ r))))
             (diagonals eps pts poly)))"
  by pat_completeness auto
termination
proof (relation "measure (\<lambda>(eps, pts, poly). length poly)", goal_cases)
  case 1
  show ?case by simp
next
  case (2 eps pts poly d)
  then have "(fst d, snd d) \<in> set (diagonals eps pts poly)" by simp
  from diagonals_bounds [OF this] show ?case by (auto simp: chain_def)
next
  case (3 eps pts poly d l)
  then have "(fst d, snd d) \<in> set (diagonals eps pts poly)" by simp
  from diagonals_bounds [OF this] show ?case by (auto simp: co_chain_def)
qed

declare partition_OPT.simps [simp del]

text \<open>
  Modelled from the spec: the squared Euclidean distance, by which bridges are compared
  (section 4.6).
\<close>

definition dist2 :: "vec2 \<Rightarrow> vec2 \<Rightarrow> real" where
  "dist2 a b = (fst a - fst b) * (fst a - fst b) + (snd a - snd b) * (snd a - snd b)"

text \<open>
  Modelled from the spec: a bridge from a hole vertex to a host vertex is feasible when
  it properly intersects no edge of any loop (section 4.6).
\<close>

definition feasible_bridge :: "real \<Rightarrow> vec2 list \<Rightarrow> Polygon list \<Rightarrow> nat \<Rightarrow> nat \<Rightarrow> bool" where
  "feasible_bridge eps pts loops u v =
     (\<forall>l \<in> set loops. \<forall>e \<in> set (edges_of l).
        \<not> segments_intersect eps (pts ! u) (pts ! v) (pts ! fst e) (pts ! snd e))"

text \<open>
  Modelled from the spec: the feasible bridges of a hole: host loop, position in the
  host, position in the hole (section 4.6).
\<close>

definition bridges ::
  "real \<Rightarrow> vec2 list \<Rightarrow> Polygon list \<Rightarrow> Polygon list \<Rightarrow> Polygon \<Rightarrow> (nat \<times> nat \<times> nat) list" where
  "bridges eps pts hosts holes hole =
     concat (map (\<lambda>p. concat (map (\<lambda>i. map (\<lambda>j. (p, i, j))
       (filter (\<lambda>j. feasible_bridge eps pts (hosts @ holes) (hole ! j) (hosts ! p ! i))
          [0..<length hole])) [0..<length (hosts ! p)])) [0..<length hosts])"

text \<open>
  Modelled from the spec: the nearest feasible bridge (section 4.6).
\<close>

fun nearest ::
  "vec2 list \<Rightarrow> Polygon list \<Rightarrow> Polygon \<Rightarrow> (nat \<times> nat \<times> nat) list \<Rightarrow> (nat \<times> nat \<times> nat) option" where
  "nearest pts hosts hole [] = None"
| "nearest pts hosts hole ((p, i, j) # cs) =
     (case nearest pts hosts hole cs of
        None \<Rightarrow> Some (p, i, j)
      | Some (p', i', j') \<Rightarrow>
          if dist2 (pts ! (hole ! j')) (pts ! (hosts ! p' ! i')) <
             dist2 (pts ! (hole ! j)) (pts ! (hosts ! p ! i))
          then Some (p', i', j') else Some (p, i, j))"

text \<open>
  Modelled from the spec: the splice of section 4.6: the host up to the bridge vertex,
  the whole loop of the hole from its bridge vertex and back to it, then the host from
  the bridge vertex on.
\<close>

definition splice :: "Polygon \<Rightarrow> nat \<Rightarrow> Polygon \<Rightarrow> nat \<Rightarrow> Polygon" where
  "splice host i hole j = take (Suc i) host @ rotate j hole @ [hole ! j] @ drop i host"

text \<open>
  Modelled from the spec: \<open>merge_holes\<close> (section 4.6): every hole is
  spliced into a host at its nearest feasible bridge; a hole with no feasible bridge is
  a failure. The implementation is not among the sources.
\<close>

fun merge_holes :: "real \<Rightarrow> vec2 list \<Rightarrow> Polygon list \<Rightarrow> Polygon list \<Rightarrow> Polygon list option" where
  "merge_holes eps pts hosts [] = Some hosts"
| "merge_holes eps pts hosts (hole # holes) =
     (case nearest pts hosts hole (bridges eps pts hosts (hole # holes) hole) of
        None \<Rightarrow> None
      | Some (p, i, j) \<Rightarrow>
          merge_holes eps pts (hosts[p := splice (hosts ! p) i hole j]) holes)"

text \<open>
  Modelled from the spec: \<open>apply_OPT(poly) -> (ok, parts)\<close> (section 4.7,
  and the declaration in polygon\_partition.h): validate, then run the optimal
  partitioner; on failure the parts are empty (section 6).
\<close>

definition apply_OPT :: "real \<Rightarrow> vec2 list \<Rightarrow> bool \<times> Polygon list" where
  "apply_OPT eps poly =
     (if valid_polygon eps poly [0..<length poly] then
        (case partition_OPT eps poly [0..<length poly] of
           None \<Rightarrow> (False, [])
         | Some parts \<Rightarrow> (True, parts))
      else (False, []))"

text \<open>
  Modelled from the spec: \<open>apply_HM(poly) -> (ok, parts)\<close> (section 4.7, and
  the declaration in polygon\_partition.h): validate, then run the Hertel-Mehlhorn
  partitioner; on failure the parts are empty (section 6).
\<close>

definition apply_HM :: "real \<Rightarrow> vec2 list \<Rightarrow> bool \<times> Polygon list" where
  "apply_HM eps poly =
     (if valid_polygon eps poly [0..<length poly] then
        (case partition_HM eps poly of
           None \<Rightarrow> (False, [])
         | Some parts \<Rightarrow> (True, parts))
      else (False, []))"

text \<open>
  Modelled from the spec: two input loops cross (section 4.7): an edge of one properly
  intersects an edge of the other.
\<close>

definition loops_cross :: "real \<Rightarrow> vec2 list \<Rightarrow> Polygon \<Rightarrow> Polygon \<Rightarrow> bool" where
  "loops_cross eps pts l1 l2 =
     (\<exists>e \<in> set (edges_of l1). \<exists>f \<in> set (edges_of l2).
        segments_intersect eps (pts ! fst e) (pts ! snd e) (pts ! fst f) (pts ! snd f))"

text \<open>
  Modelled from the spec: a loop nested inside another (section 4.7): every vertex of it
  lies inside the other.
\<close>

definition inside_loop :: "vec2 list \<Rightarrow> Polygon \<Rightarrow> Polygon \<Rightarrow> bool" where
  "inside_loop pts inner outer =
     (\<forall>v \<in> set inner. point_in_polygon (pts ! v) (map ((!) pts) outer))"

text \<open>
  Modelled from the spec: the validation of \<open>apply\<close> (section 4.7): every
  polygon and every hole is valid in its orientation, every hole lies inside exactly one
  outer polygon, and no two loops cross.
\<close>

definition valid_input :: "real \<Rightarrow> vec2 list \<Rightarrow> Polygon list \<Rightarrow> Polygon list \<Rightarrow> bool" where
  "valid_input eps pts polys holes =
     ((\<forall>p \<in> set polys. valid_polygon eps pts p) \<and>
      (\<forall>q \<in> set holes. valid_hole eps pts q) \<and>
      (\<forall>q \<in> set holes. length (filter (inside_loop pts q) polys) = 1) \<and>
      (\<forall>a \<in> set [0..<length (polys @ holes)]. \<forall>b \<in> set [0..<length (polys @ holes)].
         a < b \<longrightarrow> \<not> loops_cross eps pts ((polys @ holes) ! a) ((polys @ holes) ! b)))"

text \<open>
  Modelled from the spec: the Hertel-Mehlhorn partitioner on one boundary of
  \<open>apply\<close> (sections 4.6 and 4.7): it runs on the points of the boundary,
  and the positions in its parts are read back as the indices of the boundary.
\<close>

definition partition_boundary :: "real \<Rightarrow> vec2 list \<Rightarrow> Polygon \<Rightarrow> Polygon list option" where
  "partition_boundary eps pts b =
     map_option (map (map ((!) b))) (partition_HM eps (map ((!) pts) b))"

text \<open>
  Modelled from the spec: the concatenation of the results of section 4.7; one failure
  fails the whole.
\<close>

fun collect :: "'a list option list \<Rightarrow> 'a list option" where
  "collect [] = Some []"
| "collect (None # rs) = None"
| "collect (Some x # rs) = map_option ((@) x) (collect rs)"

text \<open>
  Modelled from the spec: \<open>apply(points, polys, holes) -> (ok, parts)\<close>
  (section 4.7, and the declaration in polygon\_partition.h; \<open>apply\<close> itself
  is a keyword here): validate, merge the holes, partition every boundary by Hertel-
  Mehlhorn and concatenate; on failure the parts are empty (section 6).
\<close>

definition apply_polys ::
  "real \<Rightarrow> vec2 list \<Rightarrow> Polygon list \<Rightarrow> Polygon list \<Rightarrow> bool \<times> Polygon list" where
  "apply_polys eps points polys holes =
     (if valid_input eps points polys holes then
        (case merge_holes eps points polys holes of
           None \<Rightarrow> (False, [])
         | Some boundaries \<Rightarrow>
             (case collect (map (partition_boundary eps points) boundaries) of
                None \<Rightarrow> (False, [])
              | Some parts \<Rightarrow> (True, parts)))
      else (False, []))"

text \<open>
  Inputs for the examples: the unit square, an L-shaped hexagon with its one reflex vertex at
  position 3, a self-intersecting quadrilateral, and a square of side 4 (points 0 to 3) with
  a clockwise square hole of side 2 (points 4 to 7).
\<close>

definition square :: "vec2 list" where
  "square = [(0, 0), (1, 0), (1, 1), (0, 1)]"


definition bowtie :: "vec2 list" where
  "bowtie = [(0, 0), (1, 1), (1, 0), (0, 1)]"




section \<open>Properties of the camera tutorial\<close>

lemma vsize_unat_le: "unat (vsize xs) \<le> length xs"
  by (simp add: vsize_def unat_of_nat)

lemma vsize_unat: "length xs < 2 ^ 64 \<Longrightarrow> unat (vsize xs) = length xs"
  by (simp add: vsize_def unat_of_nat)

lemma in_range_access: "i < vsize xs \<Longrightarrow> unat i < length xs"
  using vsize_unat_le [of xs] by (simp add: word_less_nat_alt)

lemma vec_length_zero_iff: "vec_length (x, y, z) = 0 \<longleftrightarrow> x = 0 \<and> y = 0 \<and> z = 0"
proof -
  have "x * x + y * y + z * z = 0 \<longleftrightarrow> x = 0 \<and> y = 0 \<and> z = 0"
    by (smt (verit) mult_eq_0_iff zero_le_square add_nonneg_eq_0_iff add_nonneg_nonneg)
  then show ?thesis by (simp add: vec_length_def)
qed

lemma vec_div_None_iff: "vec_div v a = None \<longleftrightarrow> a = 0"
  by (cases v) (simp add: vec_div_def fdiv_def)

text \<open>
  Claim C9. \<open>KRT_to_camera\<close> returns false exactly when \<open>view_index\<close> is not below
  \<open>views.size()\<close>. The test \<open>view_index < 0\<close> is false for every value of the unsigned
  index. For an index in range the function returns true whatever the method, and for a
  method other than 1 and 2 the camera it was given comes back as it was.
\<close>

theorem KRT_to_camera_return:
  "(fst (KRT_to_camera is_file s view_index method c) = False \<longleftrightarrow> view_index \<ge> vsize (views s))
   \<and> \<not> view_index < 0
   \<and> (view_index < vsize (views s) \<longrightarrow> fst (KRT_to_camera is_file s view_index method c) = True)
   \<and> (view_index < vsize (views s) \<longrightarrow> method \<noteq> 1 \<longrightarrow> method \<noteq> 2 \<longrightarrow>
        fst (snd (KRT_to_camera is_file s view_index method c)) = c)"
  by (auto simp add: KRT_to_camera_def Let_def not_less)

lemma vsize_viewer0: "vsize (views viewer0) = 2"
  by (simp add: vsize_def viewer0_def)

theorem KRT_to_camera_return_witness:
  "(0::size_t) < vsize (views viewer0) \<and> (3::c_int) \<noteq> 1 \<and> (3::c_int) \<noteq> 2 \<and>
   fst (KRT_to_camera (\<lambda>_. False) viewer0 0 3 []) = True \<and>
   fst (snd (KRT_to_camera (\<lambda>_. False) viewer0 0 3 [])) = [] \<and>
   fst (KRT_to_camera (\<lambda>_. False) viewer0 2 3 []) = False"
  using KRT_to_camera_return [of "\<lambda>_. False" viewer0 0 3 "[]"]
    KRT_to_camera_return [of "\<lambda>_. False" viewer0 2 3 "[]"]
  by (simp add: vsize_viewer0)

text \<open>
  Claim C8. With method 2 and an index in range, the camera receives an orientation built
  as \<open>quat(rot_vec / angle, angle)\<close> with \<open>angle = rot_vec.length()\<close> and
  \<open>rot_vec = (-rx, -ry, -rz)\<close>; nothing tests \<open>angle\<close> before the division, and the
  quotient has a value only if the rotation vector \<open>(rx, ry, rz)\<close> of the view is not zero.
\<close>

theorem KRT_to_camera_method2:
  assumes "view_index < vsize (views s)"
  shows "\<exists>axis angle pos fov.
      fst (snd (KRT_to_camera is_file s view_index 2 c)) =
        c @ [SetOrientation (Quat_axis_angle axis angle),
             SetPosition (Neg_rotate (Quat_axis_angle axis angle) pos),
             SetFieldOfView fov]
    \<and> angle = vec_length (- rx (views s ! unat view_index), - ry (views s ! unat view_index),
                          - rz (views s ! unat view_index))
    \<and> axis = vec_div (- rx (views s ! unat view_index), - ry (views s ! unat view_index),
                          - rz (views s ! unat view_index)) angle
    \<and> (axis \<noteq> None \<longrightarrow>
         (rx (views s ! unat view_index), ry (views s ! unat view_index),
          rz (views s ! unat view_index)) \<noteq> (0, 0, 0))"
proof -
  let ?cam = "views s ! unat view_index"
  let ?rot = "(- rx ?cam, - ry ?cam, - rz ?cam)"
  have n: "\<not> (view_index < 0 \<or> vsize (views s) \<le> view_index)"
    using assms by (simp add: not_le)
  have e: "fst (snd (KRT_to_camera is_file s view_index 2 c)) =
      c @ [SetOrientation (Quat_axis_angle (vec_div ?rot (vec_length ?rot)) (vec_length ?rot)),
           SetPosition (Neg_rotate (Quat_axis_angle (vec_div ?rot (vec_length ?rot)) (vec_length ?rot))
             (tx ?cam, ty ?cam, tz ?cam)),
           SetFieldOfView (map_option (\<lambda>a. 2 * arctan a)
             (Option.bind (fdiv (2 * fy ?cam) (real_of_int (h ?cam))) (fdiv 1)))]"
    unfolding KRT_to_camera_def using n by (simp add: Let_def)
  have d: "vec_div ?rot (vec_length ?rot) \<noteq> None \<longrightarrow> (rx ?cam, ry ?cam, rz ?cam) \<noteq> (0, 0, 0)"
    by (simp add: vec_div_None_iff vec_length_zero_iff del: not_None_eq)
  from e d show ?thesis by blast
qed

theorem KRT_to_camera_method2_witness:
  "(0::size_t) < vsize (views viewer0) \<and>
   (\<exists>axis angle pos fov.
      fst (snd (KRT_to_camera (\<lambda>_. False) viewer0 0 2 [])) =
        [SetOrientation (Quat_axis_angle axis angle),
             SetPosition (Neg_rotate (Quat_axis_angle axis angle) pos),
             SetFieldOfView fov]
     \<and> axis \<noteq> None) \<and> (rx view0, ry view0, rz view0) \<noteq> (0, 0, 0)"
proof -
  have r: "(0::size_t) < vsize (views viewer0)" by (simp add: vsize_viewer0)
  have v: "views viewer0 ! unat (0::size_t) = view0" by (simp add: viewer0_def)
  have l: "vec_length (0, 0, - 2) = 2" by (simp add: vec_length_def)
  from KRT_to_camera_method2 [OF r, of "\<lambda>_. False" "[]"] obtain axis angle pos fov where
    a: "fst (snd (KRT_to_camera (\<lambda>_. False) viewer0 0 2 [])) =
        [SetOrientation (Quat_axis_angle axis angle),
             SetPosition (Neg_rotate (Quat_axis_angle axis angle) pos),
             SetFieldOfView fov]" and
    b: "angle = vec_length (- rx view0, - ry view0, - rz view0)" and
    c: "axis = vec_div (- rx view0, - ry view0, - rz view0) angle" and
    d: "axis \<noteq> None \<longrightarrow> (rx view0, ry view0, rz view0) \<noteq> (0, 0, 0)"
    unfolding v by auto
  have "axis \<noteq> None" using b c l by (simp add: view0_def vec_div_None_iff del: not_None_eq)
  with a d r show ?thesis by blast
qed

text \<open>
  The second view of \<open>viewer0\<close> has the zero rotation vector: the call still returns,
  and the orientation it sets has no axis.
\<close>

lemma KRT_to_camera_method2_zero_rotation:
  "fst (snd (KRT_to_camera (\<lambda>_. False) viewer0 1 2 [])) =
     [SetOrientation (Quat_axis_angle None 0),
      SetPosition (Neg_rotate (Quat_axis_angle None 0) (1, 2, 3)),
      SetFieldOfView (Some (2 * arctan (480 / 1000)))]"
proof -
  have n: "\<not> ((1::size_t) < 0 \<or> vsize (views viewer0) \<le> 1)"
    by (simp add: vsize_viewer0 word_le_nat_alt word_less_nat_alt)
  show ?thesis
    unfolding KRT_to_camera_def using n
    by (simp add: Let_def viewer0_def view0_def vec_length_def vec_div_def fdiv_def)
qed

lemma KRT_views: "views (snd (snd (KRT_to_camera is_file s i m c))) = views s"
  by (simp add: KRT_to_camera_def Let_def load_image_def)

lemma KRT_current_view: "current_view (snd (snd (KRT_to_camera is_file s i m c))) = current_view s"
  by (simp add: KRT_to_camera_def Let_def load_image_def)

lemma show_view_fields [simp]:
  "views (show_view s) = views s" "current_view (show_view s) = current_view s"
  by (simp_all add: show_view_def Let_def)

lemma key_press_views: "views (snd (key_press_event is_file vk s key m)) = views s"
  using KRT_views [of is_file s "current_view s" 1 "camera s"]
    KRT_views [of is_file s "current_view s" 2 "camera s"]
    KRT_views [of is_file "s\<lparr>current_view := (current_view s + 1) mod vsize (views s)\<rparr>"
       "(current_view s + 1) mod vsize (views s)" 2 "camera s"]
  by (auto simp add: key_press_event_def Let_def split: prod.splits)

lemma key_press_current_view:
  "current_view (snd (key_press_event is_file vk s key m)) =
     (if key = GLFW_KEY_SPACE \<and> views s \<noteq> [] then (current_view s + 1) mod vsize (views s)
      else current_view s)"
  using KRT_current_view [of is_file s "current_view s" 1 "camera s"]
    KRT_current_view [of is_file s "current_view s" 2 "camera s"]
    KRT_current_view [of is_file "s\<lparr>current_view := (current_view s + 1) mod vsize (views s)\<rparr>"
       "(current_view s + 1) mod vsize (views s)" 2 "camera s"]
  by (auto simp add: key_press_event_def Let_def split: prod.splits)

lemma advance_in_range:
  assumes "xs \<noteq> []" "length xs < 2 ^ 64"
  shows "unat ((i + 1) mod vsize xs) < length xs"
proof -
  have n: "unat (vsize xs) = length xs" using assms by (simp add: vsize_unat)
  then have "vsize xs \<noteq> 0" using assms by (metis length_0_conv unat_0)
  then have "(i + 1) mod vsize xs < vsize xs" by (simp add: word_mod_less_divisor word_neq_0_conv)
  then show ?thesis using n by (simp add: word_less_nat_alt)
qed

lemma advance_value:
  assumes "unat i < length xs" "length xs < 2 ^ 64"
  shows "unat ((i + 1) mod vsize xs) = (unat i + 1) mod length xs"
proof -
  have n: "unat (vsize xs) = length xs" using assms by (simp add: vsize_unat)
  have "unat (i + 1) = unat i + 1" using assms by (simp add: unat_word_ariths)
  then show ?thesis using n by (simp add: unat_mod)
qed

text \<open>
  Claim C10. With \<open>views\<close> not empty, a press of the Space key sets \<open>current_view\<close> to
  \<open>(current_view + 1) % views.size()\<close> and leaves \<open>views\<close> as it was, so afterwards
  \<open>current_view\<close> indexes an element of \<open>views\<close>; started from an index in range, the
  new index is the old one plus one modulo the number of views; and every key press keeps
  an index that was in range in range.
\<close>

theorem key_press_space_advances:
  assumes "views s \<noteq> []" and "length (views s) < 2 ^ 64"
  shows "current_view (snd (key_press_event is_file vk s GLFW_KEY_SPACE m)) =
           (current_view s + 1) mod vsize (views s)
       \<and> views (snd (key_press_event is_file vk s GLFW_KEY_SPACE m)) = views s
       \<and> view_in_range (snd (key_press_event is_file vk s GLFW_KEY_SPACE m))
       \<and> (view_in_range s \<longrightarrow>
            unat (current_view (snd (key_press_event is_file vk s GLFW_KEY_SPACE m))) =
              (unat (current_view s) + 1) mod length (views s))
       \<and> (\<forall>key. view_in_range s \<longrightarrow> view_in_range (snd (key_press_event is_file vk s key m)))"
  using assms advance_in_range [OF assms] advance_value [of "current_view s" "views s"]
  by (simp add: view_in_range_def key_press_views key_press_current_view)

theorem key_press_space_advances_witness:
  "views viewer0 \<noteq> [] \<and> length (views viewer0) < 2 ^ 64 \<and> view_in_range viewer0 \<and>
   unat (current_view (snd (key_press_event (\<lambda>_. False) (\<lambda>k m c. (False, c)) viewer0
     GLFW_KEY_SPACE 0))) = 1 \<and>
   view_in_range (snd (key_press_event (\<lambda>_. False) (\<lambda>k m c. (False, c)) viewer0
     GLFW_KEY_SPACE 0)) \<and>
   view_in_range (snd (key_press_event (\<lambda>_. False) (\<lambda>k m c. (False, c)) viewer0
     GLFW_KEY_H 0))"
proof -
  have a: "views viewer0 \<noteq> []" by (simp add: viewer0_def)
  have b: "length (views viewer0) < 2 ^ 64" by (simp add: viewer0_def)
  have c: "view_in_range viewer0" by (simp add: view_in_range_def viewer0_def)
  have d: "(unat (current_view viewer0) + 1) mod length (views viewer0) = 1"
    by (simp add: viewer0_def)
  note t = key_press_space_advances [OF a b, of "\<lambda>_. False" "\<lambda>k m c. (False, c)" 0]
  from t c d have e: "unat (current_view (snd (key_press_event (\<lambda>_. False)
      (\<lambda>k m c. (False, c)) viewer0 GLFW_KEY_SPACE 0))) = 1"
    by (metis (no_types, lifting))
  from t c have f: "view_in_range (snd (key_press_event (\<lambda>_. False)
      (\<lambda>k m c. (False, c)) viewer0 GLFW_KEY_H 0))"
    by blast
  from t a b c e f show ?thesis by blast
qed

section \<open>Properties of the partition model\<close>

subsection \<open>Positions on a loop and the area of a loop\<close>

















subsection \<open>Triangulation and the Hertel-Mehlhorn merge\<close>



















subsection \<open>The optimal partition, the hole merger and the boundaries of apply\<close>















subsection \<open>The facade operations\<close>









text \<open>
  A facade that returns false returns no parts, and a polygon with fewer than three vertices
  or with a self-intersecting boundary is rejected by both \<open>apply_OPT\<close> and \<open>apply_HM\<close>.
\<close>

lemma apply_failure_empty:
  "(\<not> fst (apply_OPT eps poly) \<longrightarrow> snd (apply_OPT eps poly) = []) \<and>
   (\<not> fst (apply_HM eps poly) \<longrightarrow> snd (apply_HM eps poly) = []) \<and>
   (\<not> fst (apply_polys eps points polys holes) \<longrightarrow>
      snd (apply_polys eps points polys holes) = []) \<and>
   (length poly < 3 \<or> self_intersecting eps poly [0..<length poly] \<longrightarrow>
      apply_OPT eps poly = (False, []) \<and> apply_HM eps poly = (False, []))"
  by (auto simp: apply_OPT_def apply_HM_def apply_polys_def valid_polygon_def valid_loop_def
      split: option.splits)






text \<open>
  The scenarios of the specification on the model: the unit square comes back as one part,
  the same cyclic sequence as the input; degenerate input is rejected.
\<close>

lemma square_one_part:
  "apply_OPT 0 square = (True, [[0, 1, 2, 3]]) \<and> apply_HM 0 square = (True, [[3, 0, 1, 2]])"
  by code_simp

lemma degenerate_input_rejected:
  "apply_OPT 0 [(0, 0), (1, 0)] = (False, []) \<and> apply_HM 0 [(0, 0), (1, 0)] = (False, []) \<and>
   self_intersecting 0 bowtie [0..<length bowtie] \<and>
   apply_OPT 0 bowtie = (False, []) \<and> apply_HM 0 bowtie = (False, [])"
  by code_simp

end
